theory Spec2Isabelle
  imports Main
begin

section \<open>JavaScript strings\<close>

text \<open>
  The component under study is the React page \<^verbatim>\<open>Home\<close> (the second part of
  \<^verbatim>\<open>src/next.config.mjs\<close>, lines 23 to 332). It lets the user pick or capture a
  photograph, sends it to a generative model and shows the six fields of the answer.

  A JavaScript string is a sequence of UTF-16 code units. The regular expression of
  \<^verbatim>\<open>identifyPlant\<close>, \<^verbatim>\<open>String.prototype.trim\<close> and \<^verbatim>\<open>JSON.parse\<close> all work on code
  units, so a string is modelled as the list of its code units, each a natural number.
  \<open>js\<close> turns an Isabelle string literal into such a list.
\<close>

type_synonym jsstring = "nat list"

definition js :: "string \<Rightarrow> jsstring" where
  "js s = map of_char s"

definition starts_with :: "jsstring \<Rightarrow> jsstring \<Rightarrow> bool" where
  "starts_with p s = (take (length p) s = p)"

subsection \<open>The response clean-up of \<^verbatim>\<open>identifyPlant\<close> (lines 160 to 163)\<close>

text \<open>
  \<^verbatim>\<open>responseText.replace(/```json\n?|\n?```/g, "")\<close> scans the text from left to right. At
  each position the first alternative is tried before the second, and the optional newline
  is greedy, so the four literal shapes below are tried in this order; a match is deleted
  and the scan goes on behind it, otherwise one code unit is kept. No match is empty.
  In \<open>replace_fences\<close> a match begins with the unit \<open>c\<close>, so \<open>drop n cs\<close> skips a match
  of \<open>n + 1\<close> units.
\<close>

definition FENCE_JSON_NL :: jsstring where
  \<open>FENCE_JSON_NL = js ''```json\<newline>''\<close>

definition FENCE_JSON :: jsstring where
  \<open>FENCE_JSON = js ''```json''\<close>

definition NL_FENCE :: jsstring where
  \<open>NL_FENCE = js ''\<newline>```''\<close>

definition FENCE :: jsstring where
  \<open>FENCE = js ''```''\<close>

fun replace_fences :: "jsstring \<Rightarrow> jsstring" where
  "replace_fences [] = []"
| "replace_fences (c # cs) =
     (if starts_with FENCE_JSON_NL (c # cs) then replace_fences (drop 7 cs)
      else if starts_with FENCE_JSON (c # cs) then replace_fences (drop 6 cs)
      else if starts_with NL_FENCE (c # cs) then replace_fences (drop 3 cs)
      else if starts_with FENCE (c # cs) then replace_fences (drop 2 cs)
      else c # replace_fences cs)"


text \<open>
  \<^verbatim>\<open>trim()\<close> removes the white space and line terminator code units of ECMAScript from
  both ends: TAB, LF, VT, FF, CR, SP, NBSP, U+1680, U+2000 to U+200A, U+2028, U+2029,
  U+202F, U+205F, U+3000 and U+FEFF.
\<close>

definition is_js_whitespace :: "nat \<Rightarrow> bool" where
  "is_js_whitespace c =
     (c = 9 \<or> c = 10 \<or> c = 11 \<or> c = 12 \<or> c = 13 \<or> c = 32 \<or> c = 160 \<or> c = 5760 \<or>
      (8192 \<le> c \<and> c \<le> 8202) \<or> c = 8232 \<or> c = 8233 \<or> c = 8239 \<or> c = 8287 \<or>
      c = 12288 \<or> c = 65279)"

definition trim :: "jsstring \<Rightarrow> jsstring" where
  "trim s = rev (dropWhile is_js_whitespace (rev (dropWhile is_js_whitespace s)))"


definition cleanedResponse :: "jsstring \<Rightarrow> jsstring" where
  "cleanedResponse responseText = trim (replace_fences responseText)"

section \<open>\<^verbatim>\<open>JSON.parse\<close>\<close>

text \<open>
  \<^verbatim>\<open>JSON.parse\<close> is a built-in of the platform. It is modelled by a parser for the JSON
  grammar of ECMA-404: it returns \<open>None\<close> exactly where the built-in throws a
  \<^verbatim>\<open>SyntaxError\<close>. A string value is the list of its code units with the escapes decoded.
  A number value is kept as its lexeme, since the double it denotes plays no role here. The
  members of an object are kept in insertion order; a repeated key overwrites the earlier
  value in place, as \<^verbatim>\<open>CreateDataProperty\<close> does.
\<close>

datatype json =
    JNull
  | JBool bool
  | JNumber jsstring
  | JString jsstring
  | JArray "json list"
  | JObject "(jsstring \<times> json) list"

definition is_json_ws :: "nat \<Rightarrow> bool" where
  "is_json_ws c = (c = 9 \<or> c = 10 \<or> c = 13 \<or> c = 32)"

definition skip_ws :: "jsstring \<Rightarrow> jsstring" where
  "skip_ws s = dropWhile is_json_ws s"

definition is_digit :: "nat \<Rightarrow> bool" where
  "is_digit c = (48 \<le> c \<and> c \<le> 57)"

definition hexval :: "nat \<Rightarrow> nat option" where
  "hexval c =
     (if 48 \<le> c \<and> c \<le> 57 then Some (c - 48)
      else if 65 \<le> c \<and> c \<le> 70 then Some (c - 55)
      else if 97 \<le> c \<and> c \<le> 102 then Some (c - 87)
      else None)"

definition hex4 :: "nat \<Rightarrow> nat \<Rightarrow> nat \<Rightarrow> nat \<Rightarrow> nat option" where
  "hex4 a b c d =
     (case (hexval a, hexval b, hexval c, hexval d) of
        (Some w, Some x, Some y, Some z) \<Rightarrow> Some (((w * 16 + x) * 16 + y) * 16 + z)
      | _ \<Rightarrow> None)"

definition escape :: "nat \<Rightarrow> nat option" where
  "escape e =
     (if e = 34 then Some 34
      else if e = 92 then Some 92
      else if e = 47 then Some 47
      else if e = 98 then Some 8
      else if e = 102 then Some 12
      else if e = 110 then Some 10
      else if e = 114 then Some 13
      else if e = 116 then Some 9
      else None)"

definition decode_char :: "jsstring \<Rightarrow> (nat \<times> jsstring) option" where
  "decode_char s =
     (case s of
        [] \<Rightarrow> None
      | c # cs \<Rightarrow>
          if c = 92 then
            (case cs of
               [] \<Rightarrow> None
             | e # r \<Rightarrow>
                 if e = 117 then
                   (case r of
                      h1 # h2 # h3 # h4 # r' \<Rightarrow>
                        (case hex4 h1 h2 h3 h4 of
                           None \<Rightarrow> None
                         | Some u \<Rightarrow> Some (u, r'))
                    | _ \<Rightarrow> None)
                 else
                   (case escape e of
                      None \<Rightarrow> None
                    | Some x \<Rightarrow> Some (x, r)))
          else if c < 32 then None
          else Some (c, cs))"


text \<open>
  Each lexical function returns the value it read together with the rest of the input.
  The rest is always shorter than the input; this is what makes the parser terminate.
\<close>

lemma decode_char_length: "decode_char s = Some (u, rest) \<Longrightarrow> length rest < length s"
  unfolding decode_char_def
  by (simp split: list.splits if_splits option.splits) auto

function parse_chars :: "jsstring \<Rightarrow> (jsstring \<times> jsstring) option" where
  "parse_chars s =
     (case s of
        [] \<Rightarrow> None
      | c # cs \<Rightarrow>
          if c = 34 then Some ([], cs)
          else
            (case decode_char s of
               None \<Rightarrow> None
             | Some (u, r) \<Rightarrow>
                 (case parse_chars r of
                    None \<Rightarrow> None
                  | Some (str, rest) \<Rightarrow> Some (u # str, rest))))"
  by pat_completeness auto
termination
  by (relation "measure length") (auto dest: decode_char_length)

declare parse_chars.simps [simp del]

definition parse_digits :: "jsstring \<Rightarrow> (jsstring \<times> jsstring) option" where
  "parse_digits s =
     (if takeWhile is_digit s = [] then None
      else Some (takeWhile is_digit s, dropWhile is_digit s))"

definition parse_int_part :: "jsstring \<Rightarrow> (jsstring \<times> jsstring) option" where
  "parse_int_part s =
     (case s of
        [] \<Rightarrow> None
      | d # r \<Rightarrow>
          if d = 48 then Some ([48], r)
          else if is_digit d then Some (d # takeWhile is_digit r, dropWhile is_digit r)
          else None)"

definition parse_frac :: "jsstring \<Rightarrow> (jsstring \<times> jsstring) option" where
  "parse_frac s =
     (case s of
        [] \<Rightarrow> Some ([], s)
      | c # r \<Rightarrow>
          if c = 46 then
            (case parse_digits r of
               None \<Rightarrow> None
             | Some (ds, rest) \<Rightarrow> Some (c # ds, rest))
          else Some ([], s))"

definition parse_exp :: "jsstring \<Rightarrow> (jsstring \<times> jsstring) option" where
  "parse_exp s =
     (case s of
        [] \<Rightarrow> Some ([], s)
      | c # r \<Rightarrow>
          if c = 101 \<or> c = 69 then
            (case r of
               [] \<Rightarrow> None
             | g # r' \<Rightarrow>
                 if g = 43 \<or> g = 45 then
                   (case parse_digits r' of
                      None \<Rightarrow> None
                    | Some (ds, rest) \<Rightarrow> Some (c # g # ds, rest))
                 else
                   (case parse_digits r of
                      None \<Rightarrow> None
                    | Some (ds, rest) \<Rightarrow> Some (c # ds, rest)))
          else Some ([], s))"

definition parse_number :: "jsstring \<Rightarrow> (jsstring \<times> jsstring) option" where
  "parse_number s =
     (let (sign, s0) = (case s of [] \<Rightarrow> ([], s) | c # r \<Rightarrow> if c = 45 then ([c], r) else ([], s))
      in case parse_int_part s0 of
           None \<Rightarrow> None
         | Some (ip, s1) \<Rightarrow>
             (case parse_frac s1 of
                None \<Rightarrow> None
              | Some (fp, s2) \<Rightarrow>
                  (case parse_exp s2 of
                     None \<Rightarrow> None
                   | Some (ep, s3) \<Rightarrow> Some (sign @ ip @ fp @ ep, s3))))"

definition parse_scalar :: "jsstring \<Rightarrow> (json \<times> jsstring) option" where
  "parse_scalar s =
     (case s of
        [] \<Rightarrow> None
      | c # r \<Rightarrow>
          if c = 34 then
            (case parse_chars r of
               None \<Rightarrow> None
             | Some (str, rest) \<Rightarrow> Some (JString str, rest))
          else if starts_with (js ''true'') s then Some (JBool True, drop 4 s)
          else if starts_with (js ''false'') s then Some (JBool False, drop 5 s)
          else if starts_with (js ''null'') s then Some (JNull, drop 4 s)
          else
            (case parse_number s of
               None \<Rightarrow> None
             | Some (lexeme, rest) \<Rightarrow> Some (JNumber lexeme, rest)))"

definition parse_key :: "jsstring \<Rightarrow> (jsstring \<times> jsstring) option" where
  "parse_key s =
     (case skip_ws s of
        [] \<Rightarrow> None
      | c # r \<Rightarrow>
          if c = 34 then
            (case parse_chars r of
               None \<Rightarrow> None
             | Some (k, rest) \<Rightarrow>
                 (case skip_ws rest of
                    [] \<Rightarrow> None
                  | d # rest' \<Rightarrow> if d = 58 then Some (k, rest') else None))
          else None)"

fun define_property :: "jsstring \<Rightarrow> json \<Rightarrow> (jsstring \<times> json) list \<Rightarrow> (jsstring \<times> json) list" where
  "define_property k v [] = [(k, v)]"
| "define_property k v ((k', v') # ms) =
     (if k' = k then (k, v) # ms else (k', v') # define_property k v ms)"

datatype frame =
    ArrayFrame "json list"
  | ObjectFrame "(jsstring \<times> json) list" jsstring

lemma parse_chars_length: "parse_chars s = Some (str, rest) \<Longrightarrow> length rest < length s"
proof (induction s arbitrary: str rule: parse_chars.induct)
  case (1 s)
  show ?case
  proof (cases s)
    case Nil
    with "1.prems" show ?thesis by (simp add: parse_chars.simps)
  next
    case (Cons c cs)
    show ?thesis
    proof (cases "c = 34")
      case True
      with "1.prems" Cons show ?thesis by (simp add: parse_chars.simps)
    next
      case False
      with "1.prems" Cons obtain u r str' where
        d: "decode_char s = Some (u, r)" and p: "parse_chars r = Some (str', rest)"
        by (subst (asm) parse_chars.simps) (auto split: option.splits)
      from "1.IH" [OF Cons False d refl p] decode_char_length [OF d] show ?thesis by simp
    qed
  qed
qed

lemma skip_ws_length: "length (skip_ws s) \<le> length s"
  by (simp add: skip_ws_def length_dropWhile_le)

lemma skip_ws_Cons_length: "skip_ws s = c # r \<Longrightarrow> length r < length s"
  using skip_ws_length [of s] by simp

lemma parse_digits_length: "parse_digits s = Some (ds, rest) \<Longrightarrow> length rest < length s"
proof -
  assume a: "parse_digits s = Some (ds, rest)"
  then have ne: "takeWhile is_digit s \<noteq> []" and r: "rest = dropWhile is_digit s"
    by (auto simp: parse_digits_def split: if_splits)
  have "length (takeWhile is_digit s) + length (dropWhile is_digit s) = length s"
    by (metis length_append takeWhile_dropWhile_id)
  with ne r show ?thesis by (cases "takeWhile is_digit s") auto
qed

lemma parse_int_part_length: "parse_int_part s = Some (ip, rest) \<Longrightarrow> length rest < length s"
  by (auto simp: parse_int_part_def less_Suc_eq_le length_dropWhile_le split: list.splits if_splits)

lemma parse_frac_length: "parse_frac s = Some (fp, rest) \<Longrightarrow> length rest \<le> length s"
  by (auto simp: parse_frac_def split: list.splits if_splits option.splits
      dest!: parse_digits_length)

lemma parse_exp_length: "parse_exp s = Some (ep, rest) \<Longrightarrow> length rest \<le> length s"
  by (auto simp: parse_exp_def split: list.splits if_splits option.splits
      dest!: parse_digits_length)

lemma parse_number_length: "parse_number s = Some (lexeme, rest) \<Longrightarrow> length rest < length s"
  by (auto simp: parse_number_def split: list.splits if_splits option.splits prod.splits
      dest!: parse_int_part_length parse_frac_length parse_exp_length)

lemma parse_scalar_length: "parse_scalar s = Some (v, rest) \<Longrightarrow> length rest < length s"
  by (auto simp: parse_scalar_def split: list.splits if_splits option.splits
      dest!: parse_chars_length parse_number_length)

lemma parse_key_length: "parse_key s = Some (k, rest) \<Longrightarrow> length rest < length s"
  by (auto simp: parse_key_def split: list.splits if_splits option.splits
      dest!: parse_chars_length skip_ws_Cons_length)


text \<open>
  The value parser keeps the arrays and objects that are still open on an explicit stack,
  so every call is a tail call on a strictly shorter input. \<open>parse_value\<close> reads one
  value; \<open>parse_after\<close> is entered once a value \<open>v\<close> is complete and either closes
  the innermost open container, continues it after a comma, or, on the empty stack, accepts
  the end of the text.
\<close>

function parse_value :: "frame list \<Rightarrow> jsstring \<Rightarrow> json option"
  and parse_after :: "json \<Rightarrow> frame list \<Rightarrow> jsstring \<Rightarrow> json option" where
  "parse_value stack s =
     (case skip_ws s of
        [] \<Rightarrow> None
      | c # r \<Rightarrow>
          if c = 123 then
            (case skip_ws r of
               [] \<Rightarrow> None
             | d # r' \<Rightarrow>
                 if d = 125 then parse_after (JObject []) stack r'
                 else
                   (case parse_key r of
                      None \<Rightarrow> None
                    | Some (k, rest) \<Rightarrow> parse_value (ObjectFrame [] k # stack) rest))
          else if c = 91 then
            (case skip_ws r of
               [] \<Rightarrow> None
             | d # r' \<Rightarrow>
                 if d = 93 then parse_after (JArray []) stack r'
                 else parse_value (ArrayFrame [] # stack) r)
          else
            (case parse_scalar (c # r) of
               None \<Rightarrow> None
             | Some (v, rest) \<Rightarrow> parse_after v stack rest))"
| "parse_after v stack s =
     (case stack of
        [] \<Rightarrow> if skip_ws s = [] then Some v else None
      | ArrayFrame elems # stack' \<Rightarrow>
          (case skip_ws s of
             [] \<Rightarrow> None
           | c # r \<Rightarrow>
               if c = 44 then parse_value (ArrayFrame (elems @ [v]) # stack') r
               else if c = 93 then parse_after (JArray (elems @ [v])) stack' r
               else None)
      | ObjectFrame members k # stack' \<Rightarrow>
          (case skip_ws s of
             [] \<Rightarrow> None
           | c # r \<Rightarrow>
               if c = 44 then
                 (case parse_key r of
                    None \<Rightarrow> None
                  | Some (k', rest) \<Rightarrow>
                      parse_value (ObjectFrame (define_property k v members) k' # stack') rest)
               else if c = 125 then parse_after (JObject (define_property k v members)) stack' r
               else None))"
  by pat_completeness auto
termination
  by (relation "measure (\<lambda>x. case x of Inl (stack, s) \<Rightarrow> length s | Inr (v, stack, s) \<Rightarrow> length s)")
    (auto dest!: skip_ws_Cons_length parse_key_length parse_scalar_length)


declare parse_value.simps [simp del] parse_after.simps [simp del]

definition JSON_parse :: "jsstring \<Rightarrow> json option" where
  "JSON_parse text = parse_value [] text"

text \<open>
  The TypeScript type \<^verbatim>\<open>PlantInfo\<close> (lines 29 to 36) names six string fields. Types are
  erased at run time: the annotation on \<^verbatim>\<open>parsedInfo\<close> checks nothing, so the state holds
  whatever value \<^verbatim>\<open>JSON.parse\<close> returned. \<open>isPlantInfo\<close> says that a value has the
  shape the type promises.
\<close>

definition get_property :: "jsstring \<Rightarrow> json \<Rightarrow> json option" where
  "get_property k v = (case v of JObject members \<Rightarrow> map_of members k | _ \<Rightarrow> None)"

definition is_string_property :: "json \<Rightarrow> jsstring \<Rightarrow> bool" where
  "is_string_property v k = (case get_property k v of Some (JString _) \<Rightarrow> True | _ \<Rightarrow> False)"

definition PlantInfo_keys :: "jsstring list" where
  "PlantInfo_keys =
     [js ''name'', js ''scientificName'', js ''family'', js ''origin'',
      js ''characteristics'', js ''uses'']"

definition isPlantInfo :: "json \<Rightarrow> bool" where
  "isPlantInfo v = list_all (is_string_property v) PlantInfo_keys"

section \<open>The state of the page\<close>

text \<open>
  A \<^verbatim>\<open>File\<close> has a name, a media type and its bytes. A \<^verbatim>\<open>MediaStream\<close> is known by the
  identifiers of its tracks. The video element carries the stream it plays; of the canvas
  only the dimensions are kept, its bitmap being an input of the capture (see below).
\<close>

record File =
  name :: jsstring
  type :: jsstring
  content :: "nat list"

datatype MediaStream = MediaStream (getTracks: "nat list")

record HTMLVideoElement =
  srcObject :: "MediaStream option"

record HTMLCanvasElement =
  width :: nat
  height :: nat

record GenerateContentRequest =
  prompt :: jsstring
  mimeType :: jsstring
  data :: "jsstring option"

text \<open>
  The first five fields are the \<^verbatim>\<open>useState\<close> cells of lines 39 to 43 (\<open>None\<close> and
  \<open>JNull\<close> stand for \<^verbatim>\<open>null\<close>), the next two the \<^verbatim>\<open>useRef\<close> cells of lines 44 and
  45 (\<open>None\<close> when the element is not mounted). The rest is the part of the browser the
  handlers act on: the set of device tracks that are live (obtained and not stopped), the
  calls of \<^verbatim>\<open>console.error\<close> with their arguments, the files whose preview is still being
  read by a \<^verbatim>\<open>FileReader\<close>, and the calls of \<^verbatim>\<open>model.generateContent\<close> issued so far.
\<close>

record Home =
  "file" :: "File option"
  preview :: "jsstring option"
  plantInfo :: json
  loading :: bool
  showCamera :: bool
  videoRef :: "HTMLVideoElement option"
  canvasRef :: "HTMLCanvasElement option"
  live :: "nat set"
  console :: "jsstring list list"
  previewReads :: "File list"
  requests :: "GenerateContentRequest list"

definition initial :: Home where
  "initial =
     \<lparr>file = None, preview = None, plantInfo = JNull, loading = False, showCamera = False,
      videoRef = None, canvasRef = Some \<lparr>width = 300, height = 150\<rparr>,
      live = {}, console = [], previewReads = [], requests = []\<rparr>"

text \<open>
  React commits the state after a handler has run: the video element is mounted exactly
  while \<^verbatim>\<open>showCamera\<close> holds (line 233), a fresh element playing nothing; the canvas is
  always mounted (line 253).
\<close>

definition render :: "Home \<Rightarrow> Home" where
  "render s =
     s\<lparr>videoRef :=
         (if showCamera s then
            (case videoRef s of None \<Rightarrow> Some \<lparr>srcObject = None\<rparr> | Some video \<Rightarrow> Some video)
          else None),
       canvasRef :=
         (case canvasRef s of None \<Rightarrow> Some \<lparr>width = 300, height = 150\<rparr> | Some canvas \<Rightarrow> Some canvas)\<rparr>"

text \<open>The stream attached to the mounted video element, if any.\<close>

definition session :: "Home \<Rightarrow> MediaStream option" where
  "session s = (case videoRef s of None \<Rightarrow> None | Some video \<Rightarrow> srcObject video)"

section \<open>Image acquisition\<close>

subsection \<open>\<^verbatim>\<open>handleImageSelection\<close> and \<^verbatim>\<open>handleFileChange\<close> (lines 47 to 59)\<close>

text \<open>
  \<^verbatim>\<open>handleImageSelection\<close> stores the file and starts a \<^verbatim>\<open>FileReader\<close> on it; when the
  reader fires its load event, the handler of line 57 stores the reader's result, a data
  URL supplied by the browser, as the preview.
\<close>

definition handleImageSelection :: "File \<Rightarrow> Home \<Rightarrow> Home" where
  "handleImageSelection selectedFile s =
     s\<lparr>file := Some selectedFile, previewReads := previewReads s @ [selectedFile]\<rparr>"

definition previewReader_onload :: "jsstring \<Rightarrow> Home \<Rightarrow> Home" where
  "previewReader_onload result s =
     (case previewReads s of
        [] \<Rightarrow> s
      | _ # pending \<Rightarrow> s\<lparr>preview := Some result, previewReads := pending\<rparr>)"

text \<open>
  \<^verbatim>\<open>e.target.files\<close> is \<^verbatim>\<open>null\<close> or a list of files; the guard of line 48 is false for
  \<^verbatim>\<open>null\<close> and for the empty list, whose element 0 is \<^verbatim>\<open>undefined\<close>.
\<close>

definition handleFileChange :: "File list option \<Rightarrow> Home \<Rightarrow> Home" where
  "handleFileChange files s =
     (case files of
        None \<Rightarrow> s
      | Some [] \<Rightarrow> s
      | Some (selectedFile # _) \<Rightarrow> handleImageSelection selectedFile s)"

subsection \<open>\<^verbatim>\<open>startCamera\<close> (lines 61 to 75)\<close>

text \<open>
  What the browser answers to \<^verbatim>\<open>getUserMedia\<close> is an input: the interface is missing
  (the guard of line 63 fails), the promise resolves with a stream whose tracks are live
  from then on, or it rejects with an error (permission denied, no capture device).
  The handler is suspended at the \<^verbatim>\<open>await\<close>, so React has committed \<^verbatim>\<open>showCamera\<close> and
  mounted the video element before the continuation runs.
\<close>

datatype getUserMedia_outcome =
    Unsupported
  | Granted MediaStream
  | Denied jsstring

definition startCamera :: "getUserMedia_outcome \<Rightarrow> Home \<Rightarrow> Home" where
  "startCamera outcome s =
     (let s1 = render (s\<lparr>showCamera := True\<rparr>) in
      case outcome of
        Unsupported \<Rightarrow> s1
      | Granted stream \<Rightarrow>
          (let s2 = s1\<lparr>live := live s1 \<union> set (getTracks stream)\<rparr> in
           case videoRef s2 of
             None \<Rightarrow> s2
           | Some video \<Rightarrow> s2\<lparr>videoRef := Some (video\<lparr>srcObject := Some stream\<rparr>)\<rparr>)
      | Denied err \<Rightarrow>
          s1\<lparr>console := console s1 @ [[js ''Error accessing the camera'', err]]\<rparr>)"

subsection \<open>\<^verbatim>\<open>stopCameraStream\<close> (lines 104 to 109)\<close>

definition stopCameraStream :: "Home \<Rightarrow> Home" where
  "stopCameraStream s =
     (case videoRef s of
        None \<Rightarrow> s
      | Some video \<Rightarrow>
          (case srcObject video of
             None \<Rightarrow> s
           | Some stream \<Rightarrow>
               s\<lparr>live := fold (\<lambda>track tracks. tracks - {track}) (getTracks stream) (live s)\<rparr>))"

subsection \<open>\<^verbatim>\<open>captureImage\<close> (lines 77 to 102)\<close>

text \<open>
  The inputs of a capture are what the browser returns: whether \<^verbatim>\<open>getContext("2d")\<close>
  gives a context, the dimensions of the current video frame, and the blob that
  \<^verbatim>\<open>toBlob\<close> hands to its callback (\<open>None\<close> for \<^verbatim>\<open>null\<close>, when the bitmap cannot be
  encoded). The callback is run right after the synchronous part.
\<close>

record capture_env =
  context2d :: bool
  videoWidth :: nat
  videoHeight :: nat
  blob :: "nat list option"

definition captureImage :: "capture_env \<Rightarrow> Home \<Rightarrow> Home" where
  "captureImage env s =
     (case videoRef s of
        None \<Rightarrow> s
      | Some video \<Rightarrow>
          (case canvasRef s of
             None \<Rightarrow> s
           | Some canvas \<Rightarrow>
               if context2d env then
                 (let s1 = s\<lparr>canvasRef :=
                            Some (canvas\<lparr>width := videoWidth env, height := videoHeight env\<rparr>)\<rparr>
                  in case blob env of
                       None \<Rightarrow> s1
                     | Some b \<Rightarrow>
                         stopCameraStream
                           ((handleImageSelection
                               \<lparr>name = js ''captured_image.jpg'', type = js ''image/jpeg'',
                                content = b\<rparr> s1)
                            \<lparr>showCamera := False\<rparr>))
               else s))"

section \<open>\<^verbatim>\<open>identifyPlant\<close> (lines 111 to 181)\<close>

definition promptContent :: jsstring where
  \<open>promptContent =
     js ''\<newline>'' @
     js ''          Identify this plant and provide the following information:\<newline>'' @
     js ''          1. Common name\<newline>'' @
     js ''          2. Scientific name\<newline>'' @
     js ''          3. Family\<newline>'' @
     js ''          4. Origin\<newline>'' @
     js ''          5. Key characteristics (in brief)\<newline>'' @
     js ''          6. Common uses\<newline>'' @
     js ''\<newline>'' @
     js ''          Provide the information in a JSON format with the following keys:\<newline>'' @
     js ''          {\<newline>'' @
     js ''            "name": "",\<newline>'' @
     js ''            "scientificName": "",\<newline>'' @
     js ''            "family": "",\<newline>'' @
     js ''            "origin": "",\<newline>'' @
     js ''            "characteristics": "",\<newline>'' @
     js ''            "uses": ""\<newline>'' @
     js ''          }\<newline>'' @
     js ''        ''\<close>

text \<open>\<^verbatim>\<open>base64Image.split(",")[1]\<close>: the text between the first and the second comma,
  \<^verbatim>\<open>undefined\<close> when there is no comma.\<close>

definition split_1 :: "jsstring \<Rightarrow> jsstring option" where
  "split_1 s =
     (case dropWhile (\<lambda>c. c \<noteq> 44) s of
        [] \<Rightarrow> None
      | _ # r \<Rightarrow> Some (takeWhile (\<lambda>c. c \<noteq> 44) r))"

text \<open>
  The inputs of one run: an error thrown synchronously inside the \<^verbatim>\<open>try\<close> block, if any;
  whether the \<^verbatim>\<open>FileReader\<close> fires its load event, and with which data URL; and how the
  call of \<^verbatim>\<open>generateContent\<close> settles. \<open>Responded\<close> carries the text of the response.
  \<open>Rejected\<close> is the promise rejecting (a network error, a non-success status of the
  service) or \<^verbatim>\<open>result.response.text()\<close> throwing. \<open>Pending\<close> is a call that has not
  settled.
\<close>

datatype reader_outcome =
    ReaderLoaded jsstring
  | ReaderSilent

datatype service_outcome =
    Responded jsstring
  | Rejected jsstring
  | Pending

record identify_env =
  setupThrows :: "jsstring option"
  reader :: reader_outcome
  service :: service_outcome

text \<open>
  The callback of lines 125 to 175. It is an \<^verbatim>\<open>async\<close> function called by the reader, not
  by \<^verbatim>\<open>identifyPlant\<close>: when the awaited call rejects, the callback's own promise rejects
  and the rest of its body is skipped; the \<^verbatim>\<open>catch\<close> of line 176 belongs to a function
  that has returned long before and does not see the rejection.
\<close>

definition identifyPlant_onload :: "File \<Rightarrow> jsstring \<Rightarrow> service_outcome \<Rightarrow> Home \<Rightarrow> Home" where
  "identifyPlant_onload file' base64Image outcome s =
     (let s1 = s\<lparr>requests := requests s @
                  [\<lparr>prompt = promptContent, mimeType = type file', data = split_1 base64Image\<rparr>]\<rparr>
      in case outcome of
           Pending \<Rightarrow> s1
         | Rejected err \<Rightarrow> s1
         | Responded responseText \<Rightarrow>
             (case JSON_parse (cleanedResponse responseText) of
                Some parsedInfo \<Rightarrow> s1\<lparr>plantInfo := parsedInfo, loading := False\<rparr>
              | None \<Rightarrow>
                  s1\<lparr>console := console s1 @ [[js ''Error parsing plant info:'', js ''SyntaxError'']],
                     plantInfo := JNull, loading := False\<rparr>))"

definition identifyPlant :: "identify_env \<Rightarrow> Home \<Rightarrow> Home" where
  "identifyPlant env s =
     (case file s of
        None \<Rightarrow> s
      | Some file' \<Rightarrow>
          (let s1 = s\<lparr>loading := True\<rparr> in
           case setupThrows env of
             Some error \<Rightarrow>
               s1\<lparr>console := console s1 @ [[js ''Error identifying plant:'', error]],
                  plantInfo := JNull, loading := False\<rparr>
           | None \<Rightarrow>
               (case reader env of
                  ReaderSilent \<Rightarrow> s1
                | ReaderLoaded base64Image \<Rightarrow>
                    identifyPlant_onload file' base64Image (service env) s1)))"

section \<open>The user's events\<close>

text \<open>
  What the rendered page lets the user do (lines 183 to 331): the file input and the
  \<^emph>\<open>Open Camera\<close> button are always there; \<^emph>\<open>Capture Image\<close> is rendered while
  \<^verbatim>\<open>showCamera\<close> holds; \<^emph>\<open>Identify Plant\<close> is rendered once there is a non-empty preview
  and is disabled while \<^verbatim>\<open>loading\<close> holds. After each handler React commits the state.
\<close>

datatype event =
    FileChange "File list option"
  | PreviewLoaded jsstring
  | OpenCamera getUserMedia_outcome
  | CaptureClick capture_env
  | IdentifyClick identify_env

definition identifyButton_enabled :: "Home \<Rightarrow> bool" where
  "identifyButton_enabled s =
     ((case preview s of None \<Rightarrow> False | Some url \<Rightarrow> url \<noteq> []) \<and> \<not> loading s)"

definition step :: "event \<Rightarrow> Home \<Rightarrow> Home" where
  "step e s =
     render
       (case e of
          FileChange files \<Rightarrow> handleFileChange files s
        | PreviewLoaded result \<Rightarrow> previewReader_onload result s
        | OpenCamera outcome \<Rightarrow> startCamera outcome s
        | CaptureClick env \<Rightarrow> if showCamera s then captureImage env s else s
        | IdentifyClick env \<Rightarrow> if identifyButton_enabled s then identifyPlant env s else s)"

definition run :: "event list \<Rightarrow> Home \<Rightarrow> Home" where
  "run es s = fold step es s"

section \<open>Sample inputs\<close>


text \<open>
  A picked file with its data URL, the page once that file and its preview are in place, and
  the inputs of a run of \<^verbatim>\<open>identifyPlant\<close> in which the reader loads and the service
  answers with a given text, rejects, or has not answered.
\<close>

definition rose_file :: File where
  "rose_file = \<lparr>name = js ''rose.png'', type = js ''image/png'', content = [137, 80, 78, 71]\<rparr>"

definition rose_url :: jsstring where
  "rose_url = js ''data:image/png;base64,iVBORw==''"

definition ready :: Home where
  "ready = initial\<lparr>file := Some rose_file, preview := Some rose_url\<rparr>"

definition responds :: "jsstring \<Rightarrow> identify_env" where
  "responds responseText =
     \<lparr>setupThrows = None, reader = ReaderLoaded rose_url, service = Responded responseText\<rparr>"

definition rejected :: identify_env where
  "rejected =
     \<lparr>setupThrows = None, reader = ReaderLoaded rose_url,
      service = Rejected (js ''TypeError: Failed to fetch'')\<rparr>"

definition thrown :: identify_env where
  "thrown =
     \<lparr>setupThrows = Some (js ''TypeError''), reader = ReaderSilent, service = Pending\<rparr>"

definition unanswered :: identify_env where
  "unanswered = \<lparr>setupThrows = None, reader = ReaderLoaded rose_url, service = Pending\<rparr>"

definition in_flight :: Home where
  "in_flight = identifyPlant unanswered ready"

text \<open>The JSON text of the example in the specification, and the value it denotes.\<close>

definition rose_json :: jsstring where
  \<open>rose_json = js ''{"name":"Rose","scientificName":"Rosa","family":"Rosaceae","origin":"Asia","characteristics":"Thorny shrub","uses":"Ornamental"}''\<close>




text \<open>
  The page after the camera was opened once, and after it was opened a second time while
  the first stream was still attached; a capture whose snapshot gives no blob, and one
  that gives the first bytes of a JPEG file; a file that is neither an image nor non-empty.
\<close>

definition camera_open :: Home where
  "camera_open = step (OpenCamera (Granted (MediaStream [1]))) initial"

definition twice_opened :: Home where
  "twice_opened =
     run [OpenCamera (Granted (MediaStream [1])), OpenCamera (Granted (MediaStream [2]))] initial"

definition no_blob :: capture_env where
  "no_blob = \<lparr>context2d = True, videoWidth = 640, videoHeight = 480, blob = None\<rparr>"

definition jpeg_blob :: capture_env where
  "jpeg_blob = \<lparr>context2d = True, videoWidth = 640, videoHeight = 480, blob = Some [255, 216, 255]\<rparr>"

definition empty_text_file :: File where
  "empty_text_file = \<lparr>name = js ''notes.txt'', type = js ''text/plain'', content = []\<rparr>"

section \<open>Units and markers in a text\<close>





section \<open>Facts about the clean-up\<close>

lemma FENCE_units: "FENCE = [96, 96, 96]"
  by (simp add: FENCE_def js_def)

lemma NL_FENCE_units: "NL_FENCE = [10, 96, 96, 96]"
  by (simp add: NL_FENCE_def js_def)

lemma FENCE_JSON_units: "FENCE_JSON = [96, 96, 96, 106, 115, 111, 110]"
  by (simp add: FENCE_JSON_def js_def)

lemma FENCE_JSON_NL_units: "FENCE_JSON_NL = [96, 96, 96, 106, 115, 111, 110, 10]"
  by (simp add: FENCE_JSON_NL_def js_def)

lemmas fence_units = FENCE_units NL_FENCE_units FENCE_JSON_units FENCE_JSON_NL_units







declare replace_fences.simps(2) [simp del]





section \<open>White space around a JSON text\<close>





lemma skip_ws_idem: "skip_ws (skip_ws s) = skip_ws s"
  by (simp add: skip_ws_def dropWhile_idem)























lemma parse_scalar_Nil: "parse_scalar [] = None"
  by (simp add: parse_scalar_def)









section \<open>Markers that one pass removes\<close>






















section \<open>Evaluating the sample inputs\<close>

lemmas json_eval = js_def starts_with_def is_js_whitespace_def trim_def cleanedResponse_def
  is_json_ws_def skip_ws_def is_digit_def hexval_def hex4_def escape_def decode_char_def
  parse_chars.simps parse_digits_def parse_int_part_def parse_frac_def parse_exp_def
  parse_number_def parse_scalar_def parse_key_def parse_value.simps parse_after.simps
  JSON_parse_def replace_fences.simps(2) fence_units

lemmas shape_eval = isPlantInfo_def PlantInfo_keys_def is_string_property_def get_property_def
  js_def

lemma parse_name_only:
  \<open>JSON_parse (cleanedResponse (js ''{"name":"Rose"}'')) =
     Some (JObject [(js ''name'', JString (js ''Rose''))])\<close>
  by (simp add: json_eval)

lemma not_isPlantInfo_name_only:
  "\<not> isPlantInfo (JObject [(js ''name'', JString (js ''Rose''))])"
  by (simp add: shape_eval)

lemma parse_truncated:
  \<open>JSON_parse (cleanedResponse (js ''```json\<newline>{"name":"Rose",\<newline>```'')) = None\<close>
  by (simp add: json_eval)

lemma split_1_rose_url: "split_1 rose_url = Some (js ''iVBORw=='')"
  by (simp add: split_1_def rose_url_def js_def)







lemma fold_stop: "fold (\<lambda>track tracks. tracks - {track}) ts L = L - set ts"
  by (induction ts arbitrary: L) auto

lemma camera_open_eq:
  "camera_open =
     initial\<lparr>showCamera := True, videoRef := Some \<lparr>srcObject = Some (MediaStream [1])\<rparr>,
       live := {1}\<rparr>"
  by (simp add: camera_open_def step_def startCamera_def render_def initial_def)

lemma twice_opened_eq:
  "twice_opened =
     initial\<lparr>showCamera := True, videoRef := Some \<lparr>srcObject = Some (MediaStream [2])\<rparr>,
       live := {1, 2}\<rparr>"
  by (simp add: twice_opened_def run_def step_def startCamera_def render_def initial_def
      insert_commute)

lemma in_flight_eq:
  "in_flight =
     ready\<lparr>loading := True,
       requests := [\<lparr>prompt = promptContent, mimeType = js ''image/png'',
                     data = Some (js ''iVBORw=='')\<rparr>]\<rparr>"
  using split_1_rose_url
  by (simp add: in_flight_def identifyPlant_def identifyPlant_onload_def unanswered_def
      ready_def initial_def rose_file_def)




lemma clean_newline_before_fence:
  \<open>cleanedResponse ([10] @ FENCE_JSON @ ([10] @ rose_json @ [10]) @ FENCE) =
     js ''json\<newline>'' @ rose_json\<close>
  by (simp add: rose_json_def js_def fence_units cleanedResponse_def trim_def
      is_js_whitespace_def starts_with_def replace_fences.simps(2))

lemma parse_json_word: \<open>JSON_parse (js ''json\<newline>'' @ rose_json) = None\<close>
  by (simp add: rose_json_def json_eval)

section \<open>The properties\<close>

text \<open>
  The page has no cell named \<^verbatim>\<open>RequestState\<close>. A call is in flight while \<^verbatim>\<open>loading\<close>
  holds; it has resolved once \<^verbatim>\<open>loading\<close> is false again, with a result when
  \<^verbatim>\<open>plantInfo\<close> is not \<^verbatim>\<open>null\<close> and without one when it is. The only way a handler
  signals a failure is a call of \<^verbatim>\<open>console.error\<close>; no handler throws.
\<close>

subsection \<open>C1: a response that cannot be parsed\<close>

text \<open>
  C1, as stated, asks that a response whose cleaned form is JSON but lacks some of the six
  fields yields no result. It does not: the cleaned form of \<^verbatim>\<open>{"name":"Rose"}\<close> is
  parsed, the value has one field of the six, and it becomes \<^verbatim>\<open>plantInfo\<close> as it is.
  Nothing in \<^verbatim>\<open>identifyPlant\<close> looks at the fields of the parsed value.
\<close>

theorem identify_partial_record:
  \<open>\<not> isPlantInfo (JObject [(js ''name'', JString (js ''Rose''))]) \<and>
   JSON_parse (cleanedResponse (js ''{"name":"Rose"}'')) =
     Some (JObject [(js ''name'', JString (js ''Rose''))]) \<and>
   plantInfo (identifyPlant (responds (js ''{"name":"Rose"}'')) ready) =
     JObject [(js ''name'', JString (js ''Rose''))] \<and>
   plantInfo (identifyPlant (responds (js ''{"name":"Rose"}'')) ready) \<noteq> JNull \<and>
   \<not> loading (identifyPlant (responds (js ''{"name":"Rose"}'')) ready)\<close>
  using parse_name_only not_isPlantInfo_name_only
  by (simp add: identifyPlant_def identifyPlant_onload_def responds_def ready_def initial_def)

text \<open>
  C1, amended: for every response text whose cleaned form is rejected by \<^verbatim>\<open>JSON.parse\<close>,
  a run of \<^verbatim>\<open>identifyPlant\<close> on a page with a file ends with no result (\<^verbatim>\<open>plantInfo\<close> is
  \<^verbatim>\<open>null\<close>, never a partly filled record), with \<^verbatim>\<open>loading\<close> false, and with the parse
  error logged.
\<close>

theorem identify_malformed_response:
  assumes "file s = Some f"
    and "JSON_parse (cleanedResponse responseText) = None"
  shows "plantInfo (identifyPlant
            \<lparr>setupThrows = None, reader = ReaderLoaded url,
             service = Responded responseText\<rparr> s) = JNull \<and>
         \<not> loading (identifyPlant
            \<lparr>setupThrows = None, reader = ReaderLoaded url,
             service = Responded responseText\<rparr> s) \<and>
         console (identifyPlant
            \<lparr>setupThrows = None, reader = ReaderLoaded url,
             service = Responded responseText\<rparr> s) =
           console s @ [[js ''Error parsing plant info:'', js ''SyntaxError'']]"
  using assms by (simp add: identifyPlant_def identifyPlant_onload_def)

text \<open>The amended C1 at a fenced response whose JSON text is cut off after the first member.\<close>

theorem identify_malformed_response_witness:
  \<open>file ready = Some rose_file \<and>
   JSON_parse (cleanedResponse (js ''```json\<newline>{"name":"Rose",\<newline>```'')) = None \<and>
   plantInfo (identifyPlant (responds (js ''```json\<newline>{"name":"Rose",\<newline>```'')) ready) = JNull \<and>
   \<not> loading (identifyPlant (responds (js ''```json\<newline>{"name":"Rose",\<newline>```'')) ready) \<and>
   console (identifyPlant (responds (js ''```json\<newline>{"name":"Rose",\<newline>```'')) ready) =
     [[js ''Error parsing plant info:'', js ''SyntaxError'']]\<close>
proof -
  have f: "file ready = Some rose_file" by (simp add: ready_def)
  have c: "console ready = []" by (simp add: ready_def initial_def)
  from identify_malformed_response [OF f parse_truncated, of rose_url] f c parse_truncated
  show ?thesis by (simp add: responds_def)
qed

subsection \<open>C2: a call that the service rejects\<close>

text \<open>
  C2 asks that a failed call ends with \<^verbatim>\<open>loading\<close> false and a failure signalled. The
  code does so only for an error thrown while \<^verbatim>\<open>identifyPlant\<close> itself runs (\<open>thrown\<close>:
  the \<^verbatim>\<open>catch\<close> of line 176 logs it and resets \<^verbatim>\<open>loading\<close>). When
  \<^verbatim>\<open>generateContent\<close> rejects, the rejection is raised inside the reader's \<^verbatim>\<open>async\<close>
  callback, which that \<^verbatim>\<open>catch\<close> does not cover: one request was issued and none is
  repeated, but \<^verbatim>\<open>loading\<close> stays true, nothing is logged, and the \<^emph>\<open>Identify Plant\<close>
  button stays disabled, so that a further click changes nothing.
\<close>

theorem identify_rejected_call_stays_loading:
  "loading (identifyPlant rejected ready) \<and>
   console (identifyPlant rejected ready) = [] \<and>
   plantInfo (identifyPlant rejected ready) = JNull \<and>
   length (requests (identifyPlant rejected ready)) = 1 \<and>
   \<not> identifyButton_enabled (identifyPlant rejected ready) \<and>
   step (IdentifyClick rejected) (identifyPlant rejected ready) = identifyPlant rejected ready \<and>
   \<not> loading (identifyPlant thrown ready) \<and>
   console (identifyPlant thrown ready) = [[js ''Error identifying plant:'', js ''TypeError'']]"
  by (simp add: identifyPlant_def identifyPlant_onload_def rejected_def thrown_def ready_def
      initial_def identifyButton_enabled_def step_def render_def)

subsection \<open>C3: the camera after a capture\<close>

text \<open>
  C3, as stated, asks that the stream is released on every path of a capture. With the
  camera open, a capture whose snapshot gives no blob leaves the stream attached and its
  track live, and the camera panel shown: the release of line 97 stands inside the guard
  \<^verbatim>\<open>if (blob)\<close> of line 91.
\<close>

theorem capture_without_blob_keeps_session:
  "session camera_open = Some (MediaStream [1]) \<and> live camera_open = {1} \<and>
   session (captureImage no_blob camera_open) = Some (MediaStream [1]) \<and>
   live (captureImage no_blob camera_open) = {1} \<and>
   showCamera (captureImage no_blob camera_open) \<and>
   live (step (CaptureClick no_blob) camera_open) = {1}"
  by (simp add: camera_open_eq session_def captureImage_def no_blob_def initial_def step_def
      render_def)

text \<open>
  C3, amended: after a capture that starts with a stream attached to the video element and
  whose snapshot yields a blob, every track of that stream is stopped and the camera panel
  is closed; after a capture that yields no blob, or gets no drawing context, the stream
  stays attached, no track is stopped, and the panel and the current file are as before.
\<close>

theorem capture_releases_session_on_success:
  assumes "videoRef s = Some video" and "srcObject video = Some stream"
    and "canvasRef s = Some canvas"
  shows "(context2d env \<and> blob env \<noteq> None \<longrightarrow>
           live (captureImage env s) = live s - set (getTracks stream) \<and>
           \<not> showCamera (captureImage env s)) \<and>
         (\<not> context2d env \<or> blob env = None \<longrightarrow>
           live (captureImage env s) = live s \<and>
           session (captureImage env s) = Some stream \<and>
           showCamera (captureImage env s) = showCamera s \<and>
           file (captureImage env s) = file s)"
  using assms
  by (auto simp: captureImage_def stopCameraStream_def handleImageSelection_def fold_stop
      session_def split: option.splits)

text \<open>The amended C3 at the open camera, for a capture with a blob and for one without.\<close>

theorem capture_releases_session_on_success_witness:
  "live (captureImage jpeg_blob camera_open) = {} \<and>
   \<not> showCamera (captureImage jpeg_blob camera_open) \<and>
   live (captureImage no_blob camera_open) = {1} \<and>
   showCamera (captureImage no_blob camera_open)"
proof -
  have v: "videoRef camera_open = Some \<lparr>srcObject = Some (MediaStream [1])\<rparr>"
    and c: "canvasRef camera_open = Some \<lparr>width = 300, height = 150\<rparr>"
    and l: "live camera_open = {1}" and sc: "showCamera camera_open"
    by (simp_all add: camera_open_eq initial_def)
  have so: "srcObject \<lparr>srcObject = Some (MediaStream [1])\<rparr> = Some (MediaStream [1])" by simp
  from capture_releases_session_on_success [OF v so c, of jpeg_blob]
    capture_releases_session_on_success [OF v so c, of no_blob] l sc
  show ?thesis by (simp add: jpeg_blob_def no_blob_def)
qed

subsection \<open>C4: a fenced response\<close>


text \<open>
  A second kind of response on which the clean-up does not give back the JSON text is one
  with a newline directly before the opening marker. The example of the specification with
  one newline in front is cleaned to \<^verbatim>\<open>json\<close>, a newline and the JSON text
  (\<open>clean_newline_before_fence\<close>), which \<^verbatim>\<open>JSON.parse\<close> rejects: the run ends without a
  result and with the parse error logged.
\<close>

lemma identify_newline_before_opening_fence:
  "plantInfo (identifyPlant
      (responds ([10] @ FENCE_JSON @ ([10] @ rose_json @ [10]) @ FENCE)) ready) = JNull \<and>
   console (identifyPlant
      (responds ([10] @ FENCE_JSON @ ([10] @ rose_json @ [10]) @ FENCE)) ready) =
     [[js ''Error parsing plant info:'', js ''SyntaxError'']]"
  using clean_newline_before_fence parse_json_word
  by (simp add: identifyPlant_def identifyPlant_onload_def responds_def ready_def initial_def)



subsection \<open>C5: the guards of \<^verbatim>\<open>identifyPlant\<close>\<close>

text \<open>
  C5, as stated, asks that a call without a file, or during a call in flight, raises a
  condition. Without a file \<^verbatim>\<open>identifyPlant\<close> returns at line 112: the page is exactly as
  before and nothing is logged. The handler itself does not look at \<^verbatim>\<open>loading\<close>: called
  on the page \<open>in_flight\<close>, where one request is out, it issues a second one, again
  without logging anything.
\<close>

theorem identify_precondition_silent:
  "file initial = None \<and>
   identifyPlant unanswered initial = initial \<and>
   console (identifyPlant unanswered initial) = [] \<and>
   loading in_flight \<and>
   length (requests in_flight) = 1 \<and>
   length (requests (identifyPlant unanswered in_flight)) = 2 \<and>
   console (identifyPlant unanswered in_flight) = []"
  by (simp add: in_flight_eq identifyPlant_def identifyPlant_onload_def unanswered_def
      ready_def initial_def)

text \<open>
  C5, amended: \<^verbatim>\<open>identifyPlant\<close> without a file returns with the page unchanged; while
  \<^verbatim>\<open>loading\<close> holds the \<^emph>\<open>Identify Plant\<close> button is disabled, so a click on it runs no
  handler; and once \<^verbatim>\<open>loading\<close> is false again (with a preview shown and a file
  present), a click is accepted: when the set-up does not throw and the reader loads, it
  issues exactly one request for that file, and \<^verbatim>\<open>loading\<close> holds while the service has
  not answered.
\<close>

theorem identify_guards:
  "(file s = None \<longrightarrow> identifyPlant env s = s) \<and>
   (loading s \<longrightarrow> step (IdentifyClick env) s = render s) \<and>
   (identifyButton_enabled s \<and> file s = Some f \<and> setupThrows env = None \<and>
    reader env = ReaderLoaded url \<longrightarrow>
      requests (step (IdentifyClick env) s) =
        requests s @ [\<lparr>prompt = promptContent, mimeType = type f, data = split_1 url\<rparr>] \<and>
      (service env = Pending \<longrightarrow> loading (step (IdentifyClick env) s)))"
  by (auto simp: identifyPlant_def identifyPlant_onload_def step_def identifyButton_enabled_def
      render_def Let_def split: service_outcome.splits option.splits)

text \<open>
  The amended C5 on the initial page (no file), on the page with a call in flight, and on
  the page with a file and no call in flight.
\<close>

theorem identify_guards_witness:
  "identifyPlant unanswered initial = initial \<and>
   step (IdentifyClick unanswered) in_flight = render in_flight \<and>
   requests (step (IdentifyClick unanswered) ready) =
     [\<lparr>prompt = promptContent, mimeType = js ''image/png'', data = Some (js ''iVBORw=='')\<rparr>] \<and>
   loading (step (IdentifyClick unanswered) ready)"
proof -
  have a: "file initial = None" by (simp add: initial_def)
  have b: "loading in_flight" by (simp add: in_flight_eq)
  have c: "identifyButton_enabled ready" "file ready = Some rose_file" "requests ready = []"
    by (simp_all add: identifyButton_enabled_def ready_def initial_def rose_url_def js_def)
  have d: "setupThrows unanswered = None" "reader unanswered = ReaderLoaded rose_url"
    "service unanswered = Pending"
    by (simp_all add: unanswered_def)
  from identify_guards [where s = initial and env = unanswered]
    identify_guards [where s = in_flight and env = unanswered]
    identify_guards [where s = ready and f = rose_file and env = unanswered and url = rose_url]
    a b c d split_1_rose_url
  show ?thesis by (simp add: rose_file_def)
qed

subsection \<open>C6: a file from the picker\<close>

text \<open>
  C6, as stated, asks that the picked file is checked to be a non-empty image and that a
  file failing the check changes nothing. A file with no bytes and the media type
  \<^verbatim>\<open>text/plain\<close> replaces the current file and has its preview read; nothing is logged.
  The handlers of lines 47 to 59 read neither the size nor the type of the file.
\<close>

theorem picker_accepts_empty_text_file:
  "content empty_text_file = [] \<and> type empty_text_file = js ''text/plain'' \<and>
   file (handleFileChange (Some [empty_text_file]) ready) = Some empty_text_file \<and>
   file (handleFileChange (Some [empty_text_file]) ready) \<noteq> file ready \<and>
   previewReads (handleFileChange (Some [empty_text_file]) ready) = [empty_text_file] \<and>
   console (handleFileChange (Some [empty_text_file]) ready) = []"
  by (simp add: handleFileChange_def handleImageSelection_def empty_text_file_def ready_def
      initial_def rose_file_def js_def)

text \<open>
  C6, amended: \<^verbatim>\<open>handleFileChange\<close> checks only that there is a first file. Without one
  the page is unchanged (file and preview included). With one, that file becomes the
  current file, whatever its bytes and media type, nothing else changes but the start of
  a read of that file, and, no earlier read being under way, the load event of the reader
  makes its result the preview.
\<close>

theorem picker_selection:
  "(files = None \<or> files = Some [] \<longrightarrow> handleFileChange files s = s) \<and>
   (files = Some (selectedFile # others) \<longrightarrow>
      handleFileChange files s =
        s\<lparr>file := Some selectedFile, previewReads := previewReads s @ [selectedFile]\<rparr> \<and>
      (previewReads s = [] \<longrightarrow>
         preview (previewReader_onload url (handleFileChange files s)) = Some url))"
  by (auto simp: handleFileChange_def handleImageSelection_def previewReader_onload_def)

text \<open>The amended C6 for no file list, an empty list, and a list of one file.\<close>

theorem picker_selection_witness:
  "handleFileChange None ready = ready \<and>
   handleFileChange (Some []) ready = ready \<and>
   file (handleFileChange (Some [rose_file]) initial) = Some rose_file \<and>
   preview (previewReader_onload rose_url (handleFileChange (Some [rose_file]) initial)) =
     Some rose_url"
proof -
  have p: "previewReads initial = []" by (simp add: initial_def)
  from picker_selection [of None ready] picker_selection [of "Some []" ready]
    picker_selection [of "Some [rose_file]" initial rose_file "[]" rose_url] p
  show ?thesis by (simp add: previewReader_onload_def)
qed

subsection \<open>C7: the camera is refused\<close>

text \<open>
  C7, as stated, has every refused \<^verbatim>\<open>openCamera\<close> signal its failure and leave no camera
  session open. Two cases differ. When the browser has no \<^verbatim>\<open>navigator.mediaDevices\<close> or no
  \<^verbatim>\<open>getUserMedia\<close>, the guard of \<^verbatim>\<open>startCamera\<close> is false and the function does nothing
  but show the camera panel: nothing is logged. And when access is denied on a page whose
  camera is already open, the stream of the first call stays attached with its track
  live: a session is open after the refused call.
\<close>

theorem startCamera_unsupported_silent:
  "console (startCamera Unsupported initial) = [] \<and>
   showCamera (startCamera Unsupported initial) \<and>
   session (startCamera Unsupported initial) = None \<and>
   session camera_open = Some (MediaStream [1]) \<and>
   session (startCamera (Denied (js ''NotAllowedError'')) camera_open) =
     Some (MediaStream [1]) \<and>
   live (startCamera (Denied (js ''NotAllowedError'')) camera_open) = {1}"
  by (simp add: startCamera_def render_def session_def camera_open_eq initial_def)

text \<open>
  C7, amended: when \<^verbatim>\<open>getUserMedia\<close> rejects (access denied, or no capture device),
  \<^verbatim>\<open>startCamera\<close> logs the error with the message \<^verbatim>\<open>Error accessing the camera\<close>; when
  the capture interface is missing it logs nothing. In both cases the camera panel is
  shown, no track becomes live or is stopped, and the stream attached to the video element
  is the one attached before: a page without a session before has none after, and a page
  with an open session keeps it.
\<close>

theorem startCamera_refused:
  "console (startCamera (Denied err) s) =
     console s @ [[js ''Error accessing the camera'', err]] \<and>
   console (startCamera Unsupported s) = console s \<and>
   (outcome = Denied err \<or> outcome = Unsupported \<longrightarrow>
      showCamera (startCamera outcome s) \<and>
      live (startCamera outcome s) = live s \<and>
      session (startCamera outcome s) = session s \<and>
      (session s = None \<and> live s = {} \<longrightarrow>
         session (startCamera outcome s) = None \<and> live (startCamera outcome s) = {}))"
  by (auto simp: startCamera_def render_def session_def split: option.splits)

text \<open>
  The amended C7 on the initial page, for a denied permission and for a missing capture
  interface.
\<close>

theorem startCamera_refused_witness:
  "session initial = None \<and> live initial = {} \<and>
   console (startCamera (Denied (js ''NotAllowedError'')) initial) =
     [[js ''Error accessing the camera'', js ''NotAllowedError'']] \<and>
   showCamera (startCamera (Denied (js ''NotAllowedError'')) initial) \<and>
   session (startCamera (Denied (js ''NotAllowedError'')) initial) = None \<and>
   live (startCamera (Denied (js ''NotAllowedError'')) initial) = {} \<and>
   console (startCamera Unsupported initial) = [] \<and>
   showCamera (startCamera Unsupported initial) \<and>
   session (startCamera Unsupported initial) = None \<and>
   live (startCamera Unsupported initial) = {}"
proof -
  have a: "session initial = None" "live initial = {}" "console initial = []"
    by (simp_all add: session_def initial_def)
  from startCamera_refused [of "js ''NotAllowedError''" initial "Denied (js ''NotAllowedError'')"]
    startCamera_refused [of "js ''NotAllowedError''" initial Unsupported] a
  show ?thesis by simp
qed

subsection \<open>C8: opening the camera twice\<close>

text \<open>
  C8 asks that never two sets of device tracks are live. \<^emph>\<open>Open Camera\<close> is always
  enabled, and \<^verbatim>\<open>startCamera\<close> overwrites \<^verbatim>\<open>srcObject\<close> without stopping the stream it
  held (the capture path does stop it, line 97). After a second click the tracks of both
  streams are live and only the second stream is attached; a successful capture then stops
  the second stream and leaves the track of the first one live, with no reference to it
  left on the page.
\<close>

theorem startCamera_twice_two_live_streams:
  "session camera_open = Some (MediaStream [1]) \<and> live camera_open = {1} \<and>
   twice_opened = step (OpenCamera (Granted (MediaStream [2]))) camera_open \<and>
   session twice_opened = Some (MediaStream [2]) \<and> live twice_opened = {1, 2} \<and>
   session (step (CaptureClick jpeg_blob) twice_opened) = None \<and>
   live (step (CaptureClick jpeg_blob) twice_opened) = {1}"
  by (auto simp: camera_open_eq twice_opened_eq session_def initial_def step_def startCamera_def
      render_def captureImage_def stopCameraStream_def handleImageSelection_def jpeg_blob_def
      insert_commute)

subsection \<open>C9: the clean-up deletes markers anywhere\<close>




subsection \<open>C10: the file made by a capture\<close>

text \<open>
  C10: whenever a capture produces a file (the video element and the canvas are mounted,
  a drawing context is there and the snapshot yields a blob), that file is named
  \<^verbatim>\<open>captured_image.jpg\<close> and has the media type \<^verbatim>\<open>image/jpeg\<close>, whatever the dimensions
  of the frame and the bytes of the blob, and it becomes the current file and has its
  preview read just as if it had been picked; in every other case the current file and the
  reads under way are as before.
\<close>

theorem captured_file_is_jpeg:
  "(videoRef s \<noteq> None \<and> canvasRef s \<noteq> None \<and> context2d env \<and> blob env = Some b \<longrightarrow>
      file (captureImage env s) =
        Some \<lparr>name = js ''captured_image.jpg'', type = js ''image/jpeg'', content = b\<rparr> \<and>
      file (captureImage env s) =
        file (handleFileChange
          (Some [\<lparr>name = js ''captured_image.jpg'', type = js ''image/jpeg'', content = b\<rparr>]) s) \<and>
      previewReads (captureImage env s) =
        previewReads (handleFileChange
          (Some [\<lparr>name = js ''captured_image.jpg'', type = js ''image/jpeg'', content = b\<rparr>]) s)) \<and>
   (videoRef s = None \<or> canvasRef s = None \<or> \<not> context2d env \<or> blob env = None \<longrightarrow>
      file (captureImage env s) = file s \<and>
      previewReads (captureImage env s) = previewReads s)"
  by (auto simp: captureImage_def stopCameraStream_def handleImageSelection_def
      handleFileChange_def Let_def split: option.splits)

text \<open>C10 at the open camera, for a capture with a blob and for one without.\<close>

theorem captured_file_is_jpeg_witness:
  "file (captureImage jpeg_blob camera_open) =
     Some \<lparr>name = js ''captured_image.jpg'', type = js ''image/jpeg'', content = [255, 216, 255]\<rparr> \<and>
   previewReads (captureImage jpeg_blob camera_open) =
     [\<lparr>name = js ''captured_image.jpg'', type = js ''image/jpeg'', content = [255, 216, 255]\<rparr>] \<and>
   file (captureImage no_blob camera_open) = None \<and>
   previewReads (captureImage no_blob camera_open) = []"
proof -
  have a: "videoRef camera_open \<noteq> None" "canvasRef camera_open \<noteq> None"
    "file camera_open = None" "previewReads camera_open = []"
    by (simp_all add: camera_open_eq initial_def)
  have b: "context2d jpeg_blob" "blob jpeg_blob = Some [255, 216, 255]" "blob no_blob = None"
    by (simp_all add: jpeg_blob_def no_blob_def)
  from captured_file_is_jpeg [of camera_open jpeg_blob "[255, 216, 255]"]
    captured_file_is_jpeg [of camera_open no_blob] a b
  show ?thesis by (simp add: handleFileChange_def handleImageSelection_def)
qed

end
